theory Spec2Isabelle
  imports Complex_Main "HOL-Library.AList"
begin

section \<open>JavaScript numbers\<close>

text \<open>
  The component computes with JavaScript numbers. They are embedded as exact rationals
  extended by the three special values \<open>Infinity\<close>, \<open>-Infinity\<close> and \<open>NaN\<close>. The
  special values follow IEEE 754 as ECMAScript prescribes; the finite part is exact
  arithmetic, which is what the doubles compute on integers below \<open>2 ^ 53\<close> and on the
  short decimals of the examples below. The rounding of doubles and the sign of
  zero are not part of the embedding.
\<close>

datatype jsnum = Fin rat | PInf | NInf | NaN

fun js_neg :: "jsnum \<Rightarrow> jsnum" where
  "js_neg (Fin a) = Fin (- a)"
| "js_neg PInf = NInf"
| "js_neg NInf = PInf"
| "js_neg NaN = NaN"

fun js_add :: "jsnum \<Rightarrow> jsnum \<Rightarrow> jsnum" where
  "js_add (Fin a) (Fin b) = Fin (a + b)"
| "js_add NaN _ = NaN"
| "js_add _ NaN = NaN"
| "js_add PInf NInf = NaN"
| "js_add NInf PInf = NaN"
| "js_add PInf _ = PInf"
| "js_add _ PInf = PInf"
| "js_add NInf _ = NInf"
| "js_add _ NInf = NInf"

definition js_sub :: "jsnum \<Rightarrow> jsnum \<Rightarrow> jsnum" where
  "js_sub a b = js_add a (js_neg b)"

text \<open>The sign of a number that is not \<open>NaN\<close>: \<open>-1\<close>, \<open>0\<close> or \<open>1\<close>.\<close>

fun js_sign :: "jsnum \<Rightarrow> int" where
  "js_sign (Fin a) = (if a < 0 then - 1 else if a = 0 then 0 else 1)"
| "js_sign PInf = 1"
| "js_sign NInf = - 1"
| "js_sign NaN = 0"

fun js_mul :: "jsnum \<Rightarrow> jsnum \<Rightarrow> jsnum" where
  "js_mul (Fin a) (Fin b) = Fin (a * b)"
| "js_mul NaN _ = NaN"
| "js_mul _ NaN = NaN"
| "js_mul a b =
     (if js_sign a * js_sign b = 0 then NaN
      else if js_sign a * js_sign b > 0 then PInf else NInf)"

text \<open>Division; a zero divisor counts as \<open>+0\<close>.\<close>

fun js_div :: "jsnum \<Rightarrow> jsnum \<Rightarrow> jsnum" where
  "js_div (Fin a) (Fin b) =
     (if b = 0 then (if a = 0 then NaN else if a > 0 then PInf else NInf)
      else Fin (a / b))"
| "js_div NaN _ = NaN"
| "js_div _ NaN = NaN"
| "js_div (Fin a) _ = Fin 0"
| "js_div PInf (Fin b) = (if b < 0 then NInf else PInf)"
| "js_div NInf (Fin b) = (if b < 0 then PInf else NInf)"
| "js_div _ _ = NaN"

text \<open>The remainder \<open>%\<close>: the result has the sign of the dividend.\<close>

definition trunc_rat :: "rat \<Rightarrow> int" where
  "trunc_rat q = (if q < 0 then - \<lfloor>- q\<rfloor> else \<lfloor>q\<rfloor>)"

fun js_mod :: "jsnum \<Rightarrow> jsnum \<Rightarrow> jsnum" where
  "js_mod (Fin a) (Fin b) =
     (if b = 0 then NaN else Fin (a - b * of_int (trunc_rat (a / b))))"
| "js_mod (Fin a) PInf = Fin a"
| "js_mod (Fin a) NInf = Fin a"
| "js_mod _ _ = NaN"

text \<open>The comparisons \<open><\<close> and \<open>>\<close>: false as soon as one side is \<open>NaN\<close>.\<close>

fun js_lt :: "jsnum \<Rightarrow> jsnum \<Rightarrow> bool" where
  "js_lt (Fin a) (Fin b) = (a < b)"
| "js_lt NaN _ = False"
| "js_lt _ NaN = False"
| "js_lt NInf NInf = False"
| "js_lt NInf _ = True"
| "js_lt PInf _ = False"
| "js_lt (Fin a) PInf = True"
| "js_lt (Fin a) NInf = False"

definition js_gt :: "jsnum \<Rightarrow> jsnum \<Rightarrow> bool" where
  "js_gt a b = js_lt b a"

text \<open>\<open>a <= b\<close>, which is not the negation of \<open>a > b\<close>: both are false on \<open>NaN\<close>.\<close>

definition js_le :: "jsnum \<Rightarrow> jsnum \<Rightarrow> bool" where
  "js_le a b = (a \<noteq> NaN \<and> b \<noteq> NaN \<and> \<not> js_lt b a)"

text \<open>Truthiness of a number (\<open>0\<close> and \<open>NaN\<close> are falsy) and the idiom \<open>x || 0\<close>.\<close>

fun js_truthy :: "jsnum \<Rightarrow> bool" where
  "js_truthy (Fin a) = (a \<noteq> 0)"
| "js_truthy NaN = False"
| "js_truthy _ = True"

definition or0 :: "jsnum \<Rightarrow> jsnum" where
  "or0 x = (if js_truthy x then x else Fin 0)"

definition isNaN :: "jsnum \<Rightarrow> bool" where
  "isNaN x = (x = NaN)"

text \<open>
  \<open>Math.floor\<close> yields an integer or one of the special values. The result has a type of
  its own, so that the conversion to a string below is defined on integers only.
\<close>

datatype jsint = IntV int | IPInf | INInf | INaN

fun Math_floor :: "jsnum \<Rightarrow> jsint" where
  "Math_floor (Fin a) = IntV \<lfloor>a\<rfloor>"
| "Math_floor PInf = IPInf"
| "Math_floor NInf = INInf"
| "Math_floor NaN = INaN"

text \<open>
  A field of a row that holds a JSON number or is absent: \<open>None\<close> is \<open>undefined\<close>, which
  arithmetic and \<open>parseFloat\<close> turn into \<open>NaN\<close>.
\<close>

definition toNum :: "rat option \<Rightarrow> jsnum" where
  "toNum v = (case v of None \<Rightarrow> NaN | Some q \<Rightarrow> Fin q)"

section \<open>Strings and numbers\<close>

text \<open>Strings are ASCII strings. \<open>String.prototype.split\<close> with a one-character separator:\<close>

fun split_on :: "char \<Rightarrow> string \<Rightarrow> string list" where
  "split_on c [] = [[]]"
| "split_on c (x # xs) =
     (if x = c then [] # split_on c xs
      else (case split_on c xs of [] \<Rightarrow> [[x]] | w # ws \<Rightarrow> (x # w) # ws))"

definition digit_of :: "char \<Rightarrow> nat option" where
  "digit_of c =
     (let n = of_char c :: nat in if 48 \<le> n \<and> n \<le> 57 then Some (n - 48) else None)"

definition hex_of :: "char \<Rightarrow> nat option" where
  "hex_of c =
     (case digit_of c of
        Some d \<Rightarrow> Some d
      | None \<Rightarrow>
          (let n = of_char c :: nat in
           if 97 \<le> n \<and> n \<le> 102 then Some (n - 87)
           else if 65 \<le> n \<and> n \<le> 70 then Some (n - 55)
           else None))"

definition is_digit :: "char \<Rightarrow> bool" where
  "is_digit c = (digit_of c \<noteq> None)"

text \<open>The value of a digit string in base \<open>b\<close>; \<open>None\<close> when a character is no digit of the base.\<close>

fun digits_val :: "nat \<Rightarrow> nat \<Rightarrow> string \<Rightarrow> nat option" where
  "digits_val b acc [] = Some acc"
| "digits_val b acc (c # cs) =
     (case hex_of c of None \<Rightarrow> None
      | Some d \<Rightarrow> if d < b then digits_val b (b * acc + d) cs else None)"

text \<open>White space that \<open>Number\<close> strips: tab, line feed, vertical tab, form feed, carriage return, space.\<close>

definition is_ws :: "char \<Rightarrow> bool" where
  "is_ws c = (of_char c \<in> {9, 10, 11, 12, 13, 32 :: nat})"

definition trim :: "string \<Rightarrow> string" where
  "trim s = rev (dropWhile is_ws (rev (dropWhile is_ws s)))"

text \<open>\<open>0x\<close>, \<open>0o\<close> and \<open>0b\<close> literals: no sign, at least one digit.\<close>

definition nondecimal :: "string \<Rightarrow> nat option" where
  "nondecimal s =
     (case s of
        c0 # c1 # ds \<Rightarrow>
          if c0 \<noteq> CHR ''0'' \<or> ds = [] then None
          else if c1 = CHR ''x'' \<or> c1 = CHR ''X'' then digits_val 16 0 ds
          else if c1 = CHR ''o'' \<or> c1 = CHR ''O'' then digits_val 8 0 ds
          else if c1 = CHR ''b'' \<or> c1 = CHR ''B'' then digits_val 2 0 ds
          else None
      | _ \<Rightarrow> None)"

text \<open>The exponent part \<open>e\<close>, \<open>e+\<close> or \<open>e-\<close> with at least one digit; an empty rest is exponent 0.\<close>

definition exponent_part :: "string \<Rightarrow> int option" where
  "exponent_part s =
     (case s of
        [] \<Rightarrow> Some 0
      | c # t \<Rightarrow>
          if c = CHR ''e'' \<or> c = CHR ''E'' then
            (let sg = (case t of x # _ \<Rightarrow> if x = CHR ''-'' then - 1 else 1 | [] \<Rightarrow> (1::int));
                 ds = (case t of x # u \<Rightarrow> if x = CHR ''-'' \<or> x = CHR ''+'' then u else t | [] \<Rightarrow> t)
             in if ds = [] then None
                else (case digits_val 10 0 ds of None \<Rightarrow> None | Some e \<Rightarrow> Some (sg * int e)))
          else None)"

text \<open>
  An unsigned decimal literal: digits, an optional point with optional digits, an optional
  exponent; at least one digit before or after the point.
\<close>

definition unsigned_decimal :: "string \<Rightarrow> rat option" where
  "unsigned_decimal s =
     (let ip = takeWhile is_digit s;
          r1 = dropWhile is_digit s;
          fp = (case r1 of [] \<Rightarrow> [] | c # t \<Rightarrow> if c = CHR ''.'' then takeWhile is_digit t else []);
          r2 = (case r1 of [] \<Rightarrow> [] | c # t \<Rightarrow> if c = CHR ''.'' then dropWhile is_digit t else r1)
      in if ip = [] \<and> fp = [] then None
         else (case (digits_val 10 0 ip, digits_val 10 0 fp, exponent_part r2) of
                 (Some i, Some f, Some e) \<Rightarrow>
                   Some ((of_nat i + of_nat f / 10 ^ length fp) * (10 powi e))
               | _ \<Rightarrow> None))"

text \<open>
  \<open>Number(s)\<close> on a string: the trimmed string is empty (value 0), a literal of another
  base, a signed decimal literal or signed \<open>Infinity\<close>, and \<open>NaN\<close> otherwise.
\<close>

definition Number :: "string \<Rightarrow> jsnum" where
  "Number s =
     (let t = trim s in
      if t = [] then Fin 0
      else (case nondecimal t of
              Some n \<Rightarrow> Fin (of_nat n)
            | None \<Rightarrow>
               (let neg = (case t of c # _ \<Rightarrow> c = CHR ''-'' | [] \<Rightarrow> False);
                    u = (case t of c # r \<Rightarrow> if c = CHR ''-'' \<or> c = CHR ''+'' then r else t | [] \<Rightarrow> t)
                in if u = ''Infinity'' then (if neg then NInf else PInf)
                   else (case unsigned_decimal u of
                           None \<Rightarrow> NaN
                         | Some q \<Rightarrow> Fin (if neg then - q else q)))))"

text \<open>
  \<open>toString\<close> of an integer: decimal digits, which is what JavaScript prints below
  \<open>10 ^ 21\<close>.
\<close>

definition digit_char :: "nat \<Rightarrow> char" where
  "digit_char d = char_of (48 + d)"

fun show_nat :: "nat \<Rightarrow> string" where
  "show_nat n = (if n < 10 then [digit_char n] else show_nat (n div 10) @ [digit_char (n mod 10)])"

declare show_nat.simps [simp del]

definition show_int :: "int \<Rightarrow> string" where
  "show_int i = (if i < 0 then CHR ''-'' # show_nat (nat (- i)) else show_nat (nat i))"

fun toString :: "jsint \<Rightarrow> string" where
  "toString (IntV i) = show_int i"
| "toString IPInf = ''Infinity''"
| "toString INInf = ''-Infinity''"
| "toString INaN = ''NaN''"

definition padStart2 :: "string \<Rightarrow> string" where
  "padStart2 s = replicate (2 - length s) (CHR ''0'') @ s"

section \<open>Scalar helpers\<close>

datatype js_error = RangeError

text \<open>
  \<open>parseFloat(n.toFixed(d))\<close> on a finite number: \<open>toFixed\<close> takes the integer \<open>k\<close> for
  which \<open>k / 10 ^ d\<close> is nearest to the absolute value, the larger one of two, and keeps
  numbers from \<open>10 ^ 21\<close> on as they are.
\<close>

definition toFixed_val :: "rat \<Rightarrow> nat \<Rightarrow> rat" where
  "toFixed_val x d =
     (if \<bar>x\<bar> \<ge> 10 ^ 21 then x
      else (if x < 0 then - 1 else 1) * of_int \<lfloor>\<bar>x\<bar> * 10 ^ d + 1 / 2\<rfloor> / 10 ^ d)"

text \<open>
  \<^verbatim>\<open>const truncateToDecimals = (num, d = 2) => { const n = parseFloat(num);
    if (isNaN(n)) return 0; return parseFloat(n.toFixed(d)); };\<close>
  on a number; \<open>toFixed\<close> raises a \<open>RangeError\<close> for more than 100 digits.
\<close>

definition truncateToDecimals :: "jsnum \<Rightarrow> nat \<Rightarrow> js_error + jsnum" where
  "truncateToDecimals n d =
     (if isNaN n then Inr (Fin 0)
      else if d > 100 then Inl RangeError
      else (case n of Fin x \<Rightarrow> Inr (Fin (toFixed_val x d)) | _ \<Rightarrow> Inr n))"

text \<open>The calls with the default \<open>d = 2\<close>, where \<open>toFixed\<close> cannot raise.\<close>

definition truncateToDecimals2 :: "jsnum \<Rightarrow> jsnum" where
  "truncateToDecimals2 n =
     (if isNaN n then Fin 0 else (case n of Fin x \<Rightarrow> Fin (toFixed_val x 2) | _ \<Rightarrow> n))"

text \<open>
  \<^verbatim>\<open>const calculateAverage = (arr) => { if (!arr || arr.length === 0) return 0;
    const sum = arr.reduce((acc, val) => acc + val, 0); return sum / arr.length; };\<close>
\<close>

definition calculateAverage :: "jsnum list \<Rightarrow> jsnum" where
  "calculateAverage arr =
     (if arr = [] then Fin 0
      else js_div (foldl js_add (Fin 0) arr) (Fin (of_nat (length arr))))"

text \<open>
  \<^verbatim>\<open>const formatSecondsToDuration = (s) => { if (isNaN(s) || s < 0) return "00:00:00";
    const h = Math.floor(s / 3600); const m = Math.floor((s % 3600) / 60);
    const sec = Math.floor(s % 60);
    return [h, m, sec].map(v => v.toString().padStart(2, '0')).join(':'); };\<close>
\<close>

definition formatSecondsToDuration :: "jsnum \<Rightarrow> string" where
  "formatSecondsToDuration s =
     (if isNaN s \<or> js_lt s (Fin 0) then ''00:00:00''
      else (let h = Math_floor (js_div s (Fin 3600));
                m = Math_floor (js_div (js_mod s (Fin 3600)) (Fin 60));
                sec = Math_floor (js_mod s (Fin 60))
            in padStart2 (toString h) @ '':'' @ padStart2 (toString m) @ '':''
               @ padStart2 (toString sec)))"

text \<open>
  The time-spent field of a row: absent, a string, or an object with optional numeric
  \<open>hours\<close>, \<open>minutes\<close> and \<open>seconds\<close>.
\<close>

datatype jstime = TAbsent | TStr string | TObj "rat option" "rat option" "rat option"

text \<open>
  \<^verbatim>\<open>const parseDurationToSeconds = (d) => { if (!d || typeof d !== 'string') return 0;
    const p = d.split(':').map(Number);
    return p.length !== 3 ? 0 : p[0] * 3600 + p[1] * 60 + p[2]; };\<close>
\<close>

definition parseDurationToSeconds :: "jstime \<Rightarrow> jsnum" where
  "parseDurationToSeconds d =
     (case d of
        TStr s \<Rightarrow>
          if s = [] then Fin 0
          else (case map Number (split_on (CHR '':'') s) of
                  [p0, p1, p2] \<Rightarrow>
                    js_add (js_add (js_mul p0 (Fin 3600)) (js_mul p1 (Fin 60))) p2
                | _ \<Rightarrow> Fin 0)
      | _ \<Rightarrow> Fin 0)"

text \<open>
  \<^verbatim>\<open>const parseTimeObjectToSeconds = (t) => { if (!t) return 0;
    if (typeof t === 'string') return parseDurationToSeconds(t);
    return (t.hours || 0) * 3600 + (t.minutes || 0) * 60 + (t.seconds || 0); };\<close>
\<close>

definition time_truthy :: "jstime \<Rightarrow> bool" where
  "time_truthy t = (case t of TAbsent \<Rightarrow> False | TStr s \<Rightarrow> s \<noteq> [] | TObj _ _ _ \<Rightarrow> True)"

definition parseTimeObjectToSeconds :: "jstime \<Rightarrow> jsnum" where
  "parseTimeObjectToSeconds t =
     (if \<not> time_truthy t then Fin 0
      else (case t of
              TObj h m s \<Rightarrow>
                js_add (js_add (js_mul (or0 (toNum h)) (Fin 3600)) (js_mul (or0 (toNum m)) (Fin 60)))
                  (or0 (toNum s))
            | _ \<Rightarrow> parseDurationToSeconds t))"

section \<open>Rows of the flat table\<close>

text \<open>
  An id of a row is absent (\<open>undefined\<close>), a JSON integer or a JSON string; a JSON
  \<open>null\<close> is not modelled. \<open>Map\<close> keys compare by value within one kind, so the number
  1 and the string \<open>"1"\<close> are different keys, while \<open>String\<close> maps both to \<open>"1"\<close>.
\<close>

datatype jsid = IdAbsent | IdNum int | IdStr string

definition id_truthy :: "jsid \<Rightarrow> bool" where
  "id_truthy i = (case i of IdAbsent \<Rightarrow> False | IdNum n \<Rightarrow> n \<noteq> 0 | IdStr s \<Rightarrow> s \<noteq> [])"

definition String_id :: "jsid \<Rightarrow> string" where
  "String_id i = (case i of IdAbsent \<Rightarrow> ''undefined'' | IdNum n \<Rightarrow> show_int n | IdStr s \<Rightarrow> s)"

text \<open>
  One row. Every field may be absent: a name is \<open>None\<close>, a number is \<open>None\<close>, an id is
  \<open>IdAbsent\<close>, the time spent is \<open>TAbsent\<close>.
\<close>

record FlatRecord =
  ChapterId :: jsid
  ChapterNo :: "rat option"
  ChapterName :: "string option"
  UnitId :: jsid
  UnitNo :: "rat option"
  UnitName :: "string option"
  ActivityTypeId :: jsid
  ActivityTypeName :: "string option"
  SequenceBuilderID :: jsid
  ConceptId :: jsid
  ConceptName :: "string option"
  ConceptCategory :: "string option"
  ConceptParentId :: jsid
  ConceptParentName :: "string option"
  UserId :: jsid
  UserFullName :: "string option"
  UnitCompletionPercentage :: "rat option"
  UnitAccuracyPercentage :: "rat option"
  UnitTimeSpent :: jstime
  ActivityTypeAccuracyPercentage :: "rat option"
  ActivityTotalAttempts :: "rat option"
  ConceptAccuracyPercentage :: "rat option"

section \<open>The hierarchy\<close>

text \<open>
  The objects of the built hierarchy. A field name that JavaScript uses in several
  objects carries a prefix here.
\<close>

record element =
  elementId :: string
  elementName :: "string option"
  el_accuracy :: jsnum

record component =
  componentId :: string
  componentName :: "string option"
  elements :: "element list"

record category =
  cat_category :: "string option"
  components :: "component list"

record activityPerf =
  activityName :: "string option"
  act_accuracy :: jsnum
  totalAttempts :: "rat option"
  performanceByCategory :: "category list"

record user =
  userId :: string
  userName :: "string option"
  accuracy :: jsnum
  completion :: jsnum
  activities :: "activityPerf list"
  isStruggling :: bool
  totalTimeSpent :: string

record unit_out =
  unitId :: string
  unitNo :: "rat option"
  unitName :: "string option"
  noOfLearners :: nat
  avgAccuracy :: jsnum
  avgTimeSpent :: string
  isProblematic :: bool
  users :: "user list"

record chapter_out =
  chapterId :: string
  chapterNo :: "rat option"
  chapterName :: "string option"
  units :: "unit_out list"
  chapter_avgAccuracy :: jsnum
  chapter_completion :: jsnum

record hierarchy =
  chapters :: "chapter_out list"
  root_noOfLearners :: nat
  root_avgAccuracy :: jsnum
  root_completion :: jsnum
  root_totalTimeSpent :: string

text \<open>
  The nodes of the grouping pass. A \<open>Map\<close> is an association list in insertion order;
  \<open>map_of\<close> is \<open>get\<close>, and \<open>AList.update\<close> is \<open>set\<close>: a new key goes to the end, a known
  key keeps its place.
\<close>

record concept =
  conceptId :: string
  conceptName :: "string option"
  conceptCategory :: "string option"

record activityNode =
  an_activityId :: string
  an_activityName :: "string option"
  concepts :: "concept list"

record userNode =
  usr_userId :: string
  usr_userName :: "string option"
  usr_completion :: jsnum
  usr_accuracy :: jsnum
  totalTimeSpentSeconds :: jsnum
  activityPerformanceMap :: "(string \<times> activityPerf) list"

record unitNode =
  un_unitId :: string
  un_unitNo :: "rat option"
  un_unitName :: "string option"
  activitiesMap :: "(jsid \<times> activityNode) list"
  usersMap :: "(jsid \<times> userNode) list"

record chapterNode =
  cn_chapterId :: string
  cn_chapterNo :: "rat option"
  cn_chapterName :: "string option"
  unitsMap :: "(jsid \<times> unitNode) list"

type_synonym chaptersMap = "(jsid \<times> chapterNode) list"

section \<open>The grouping pass\<close>

definition newChapter :: "FlatRecord \<Rightarrow> chapterNode" where
  "newChapter row =
     \<lparr>cn_chapterId = String_id (ChapterId row), cn_chapterNo = ChapterNo row,
      cn_chapterName = ChapterName row, unitsMap = []\<rparr>"

definition newUnit :: "FlatRecord \<Rightarrow> unitNode" where
  "newUnit row =
     \<lparr>un_unitId = String_id (UnitId row), un_unitNo = UnitNo row, un_unitName = UnitName row,
      activitiesMap = [], usersMap = []\<rparr>"

definition newActivity :: "FlatRecord \<Rightarrow> activityNode" where
  "newActivity row =
     \<lparr>an_activityId =
        String_id (UnitId row) @ ''-'' @ String_id (ActivityTypeId row) @ ''-''
        @ String_id (SequenceBuilderID row),
      an_activityName = ActivityTypeName row, concepts = []\<rparr>"

definition newConcept :: "FlatRecord \<Rightarrow> concept" where
  "newConcept row =
     \<lparr>conceptId = String_id (ConceptId row), conceptName = ConceptName row,
      conceptCategory = ConceptCategory row\<rparr>"

definition newUser :: "FlatRecord \<Rightarrow> userNode" where
  "newUser row =
     \<lparr>usr_userId = String_id (UserId row), usr_userName = UserFullName row,
      usr_completion = or0 (toNum (UnitCompletionPercentage row)),
      usr_accuracy = or0 (toNum (UnitAccuracyPercentage row)),
      totalTimeSpentSeconds = parseTimeObjectToSeconds (UnitTimeSpent row),
      activityPerformanceMap = []\<rparr>"

definition newPerformance :: "FlatRecord \<Rightarrow> activityNode \<Rightarrow> activityPerf" where
  "newPerformance row activity =
     \<lparr>activityName = an_activityName activity,
      act_accuracy = or0 (truncateToDecimals2 (toNum (ActivityTypeAccuracyPercentage row))),
      totalAttempts = ActivityTotalAttempts row, performanceByCategory = []\<rparr>"

definition newElement :: "FlatRecord \<Rightarrow> element" where
  "newElement row =
     \<lparr>elementId = String_id (ConceptId row), elementName = ConceptName row,
      el_accuracy = or0 (truncateToDecimals2 (toNum (ConceptAccuracyPercentage row)))\<rparr>"

text \<open>\<open>arr.find(p)\<close> followed by a change of the object found: the first match is changed.\<close>

fun upd_first :: "('a \<Rightarrow> bool) \<Rightarrow> ('a \<Rightarrow> 'a) \<Rightarrow> 'a list \<Rightarrow> 'a list" where
  "upd_first p f [] = []"
| "upd_first p f (x # xs) = (if p x then f x # xs else x # upd_first p f xs)"

text \<open>Lines 305 to 311: the category by name, the component by id, the element by id.\<close>

definition addToElements :: "FlatRecord \<Rightarrow> element list \<Rightarrow> element list" where
  "addToElements row es =
     (if \<not> list_ex (\<lambda>e. elementId e = String_id (ConceptId row)) es
      then es @ [newElement row] else es)"

definition addToComponents :: "FlatRecord \<Rightarrow> component list \<Rightarrow> component list" where
  "addToComponents row cs =
     (let here = (\<lambda>c. componentId c = String_id (ConceptParentId row));
          cs1 = (if find here cs = None
                 then cs @ [\<lparr>componentId = String_id (ConceptParentId row),
                             componentName = ConceptParentName row, elements = []\<rparr>]
                 else cs)
      in upd_first here (\<lambda>c. c\<lparr>elements := addToElements row (elements c)\<rparr>) cs1)"

definition addToCategories :: "FlatRecord \<Rightarrow> category list \<Rightarrow> category list" where
  "addToCategories row cats =
     (let here = (\<lambda>c. cat_category c = ConceptCategory row);
          cats1 = (if find here cats = None
                   then cats @ [\<lparr>cat_category = ConceptCategory row, components = []\<rparr>]
                   else cats)
      in upd_first here (\<lambda>c. c\<lparr>components := addToComponents row (components c)\<rparr>) cats1)"

text \<open>Line 296: the activity of the unit, keyed by \<open>SequenceBuilderID\<close>.\<close>

definition addActivity :: "FlatRecord \<Rightarrow> unitNode \<Rightarrow> unitNode" where
  "addActivity row unit =
     (if id_truthy (ActivityTypeId row) \<and> map_of (activitiesMap unit) (SequenceBuilderID row) = None
      then unit\<lparr>activitiesMap :=
             AList.update (SequenceBuilderID row) (newActivity row) (activitiesMap unit)\<rparr>
      else unit)"

text \<open>Line 298: the concept of the activity, once per concept id.\<close>

definition addConcept :: "FlatRecord \<Rightarrow> unitNode \<Rightarrow> unitNode" where
  "addConcept row unit =
     (case map_of (activitiesMap unit) (SequenceBuilderID row) of
        None \<Rightarrow> unit
      | Some activity \<Rightarrow>
          if id_truthy (ConceptId row)
             \<and> \<not> list_ex (\<lambda>c. conceptId c = String_id (ConceptId row)) (concepts activity)
          then unit\<lparr>activitiesMap :=
                 AList.update (SequenceBuilderID row)
                   (activity\<lparr>concepts := concepts activity @ [newConcept row]\<rparr>)
                   (activitiesMap unit)\<rparr>
          else unit)"

text \<open>Line 300: the user of the unit, keyed by \<open>UserId\<close>.\<close>

definition addUser :: "FlatRecord \<Rightarrow> unitNode \<Rightarrow> unitNode" where
  "addUser row unit =
     (if map_of (usersMap unit) (UserId row) = None
      then unit\<lparr>usersMap := AList.update (UserId row) (newUser row) (usersMap unit)\<rparr>
      else unit)"

text \<open>Line 302: the performance of the user in the activity, keyed by the activity's id.\<close>

definition addPerformance :: "FlatRecord \<Rightarrow> activityNode \<Rightarrow> userNode \<Rightarrow> userNode" where
  "addPerformance row activity usr =
     (if map_of (activityPerformanceMap usr) (an_activityId activity) = None
      then usr\<lparr>activityPerformanceMap :=
             AList.update (an_activityId activity) (newPerformance row activity)
               (activityPerformanceMap usr)\<rparr>
      else usr)"

text \<open>
  Lines 303 to 312. The performance looked up is the one line 302 has just ensured, so
  the lookup never misses (lemma \<open>addPerformance_present\<close>).
\<close>

definition addElement :: "FlatRecord \<Rightarrow> activityNode \<Rightarrow> userNode \<Rightarrow> userNode" where
  "addElement row activity usr =
     (case map_of (activityPerformanceMap usr) (an_activityId activity) of
        None \<Rightarrow> usr
      | Some perf \<Rightarrow>
          usr\<lparr>activityPerformanceMap :=
            AList.update (an_activityId activity)
              (perf\<lparr>performanceByCategory := addToCategories row (performanceByCategory perf)\<rparr>)
              (activityPerformanceMap usr)\<rparr>)"

text \<open>Lines 296 to 313: what a row does to its unit.\<close>

definition processUnit :: "FlatRecord \<Rightarrow> unitNode \<Rightarrow> unitNode" where
  "processUnit row unit =
     (let unit2 = addConcept row (addActivity row unit) in
      if id_truthy (UserId row) then
        (let unit3 = addUser row unit2 in
         case map_of (usersMap unit3) (UserId row) of
           None \<Rightarrow> unit3
         | Some usr \<Rightarrow>
             (case map_of (activitiesMap unit2) (SequenceBuilderID row) of
                None \<Rightarrow> unit3
              | Some activity \<Rightarrow>
                  (let usr1 = addPerformance row activity usr;
                       usr2 = (if id_truthy (ConceptId row) then addElement row activity usr1
                               else usr1)
                   in unit3\<lparr>usersMap := AList.update (UserId row) usr2 (usersMap unit3)\<rparr>)))
      else unit2)"

text \<open>Lines 291 and 292: the chapter of the row, created when its id is new.\<close>

definition getChapter :: "FlatRecord \<Rightarrow> chaptersMap \<Rightarrow> chapterNode" where
  "getChapter row cm = (case map_of cm (ChapterId row) of None \<Rightarrow> newChapter row | Some c \<Rightarrow> c)"

text \<open>Line 293: the unit of the row, created when its id is truthy and new in the chapter.\<close>

definition ensureUnit :: "FlatRecord \<Rightarrow> chapterNode \<Rightarrow> chapterNode" where
  "ensureUnit row c =
     (if id_truthy (UnitId row) \<and> map_of (unitsMap c) (UnitId row) = None
      then c\<lparr>unitsMap := AList.update (UnitId row) (newUnit row) (unitsMap c)\<rparr>
      else c)"

text \<open>
  Lines 291 to 313 for one row: the chapter is there for every row; a row whose unit id
  is falsy finds no unit and stops there (\<open>continue\<close>).
\<close>

definition processRow :: "FlatRecord \<Rightarrow> chaptersMap \<Rightarrow> chaptersMap" where
  "processRow row cm =
     (let c = ensureUnit row (getChapter row cm)
      in case map_of (unitsMap c) (UnitId row) of
           None \<Rightarrow> AList.update (ChapterId row) c cm
         | Some unit \<Rightarrow>
             AList.update (ChapterId row)
               (c\<lparr>unitsMap := AList.update (UnitId row) (processUnit row unit) (unitsMap c)\<rparr>)
               cm)"

definition groupRows :: "FlatRecord list \<Rightarrow> chaptersMap" where
  "groupRows rows = foldl (\<lambda>cm row. processRow row cm) [] rows"

section \<open>The rollup\<close>

text \<open>
  \<open>Array.prototype.sort\<close> with a comparison function: a stable sort, a comparison
  result that is \<open>NaN\<close> counting as 0. On a consistent comparison function the result of
  a stable sort is determined; it is computed here by insertion from the right.
\<close>

fun js_insort :: "('a \<Rightarrow> 'a \<Rightarrow> jsnum) \<Rightarrow> 'a \<Rightarrow> 'a list \<Rightarrow> 'a list" where
  "js_insort cmp x [] = [x]"
| "js_insort cmp x (y # ys) =
     (if js_gt (cmp x y) (Fin 0) then y # js_insort cmp x ys else x # y # ys)"

definition js_sort :: "('a \<Rightarrow> 'a \<Rightarrow> jsnum) \<Rightarrow> 'a list \<Rightarrow> 'a list" where
  "js_sort cmp xs = foldr (js_insort cmp) xs []"

text \<open>Line 315: the mean time over the rows that carry a user id and a time spent.\<close>

definition courseAverageTimePerUnit :: "FlatRecord list \<Rightarrow> jsnum" where
  "courseAverageTimePerUnit flatData =
     calculateAverage
       (map (\<lambda>r. parseTimeObjectToSeconds (UnitTimeSpent r))
          (filter (\<lambda>r. id_truthy (UserId r) \<and> time_truthy (UnitTimeSpent r)) flatData))"

text \<open>Line 319.\<close>

definition avgUnitTimePerUser :: "unitNode \<Rightarrow> jsnum" where
  "avgUnitTimePerUser unit =
     (if length (usersMap unit) > 0
      then js_div (foldl js_add (Fin 0) (map (\<lambda>kv. totalTimeSpentSeconds (snd kv)) (usersMap unit)))
             (Fin (of_nat (length (usersMap unit))))
      else Fin 0)"

text \<open>Lines 323 to 328.\<close>

definition finalizeUser :: "jsnum \<Rightarrow> userNode \<Rightarrow> user" where
  "finalizeUser avgTime usr =
     \<lparr>userId = usr_userId usr, userName = usr_userName usr, accuracy = usr_accuracy usr,
      completion = usr_completion usr,
      activities = map snd (activityPerformanceMap usr),
      isStruggling =
        (js_lt (usr_accuracy usr) (Fin 50) \<and> js_gt (totalTimeSpentSeconds usr) avgTime),
      totalTimeSpent = formatSecondsToDuration (totalTimeSpentSeconds usr)\<rparr>"

text \<open>Lines 318 to 337, for one unit.\<close>

definition finalizeUnit :: "jsnum \<Rightarrow> unitNode \<Rightarrow> unit_out" where
  "finalizeUnit courseAvg unit =
     (let avgTime = avgUnitTimePerUser unit;
          us = map (finalizeUser avgTime) (map snd (usersMap unit));
          avgUnitAccuracy = calculateAverage (filter (\<lambda>a. js_gt a (Fin 0)) (map accuracy us))
      in \<lparr>unitId = un_unitId unit, unitNo = un_unitNo unit, unitName = un_unitName unit,
          noOfLearners = length us, avgAccuracy = truncateToDecimals2 avgUnitAccuracy,
          avgTimeSpent = formatSecondsToDuration avgTime,
          isProblematic = (js_lt avgUnitAccuracy (Fin 60) \<and> js_gt avgTime courseAvg),
          users = us\<rparr>)"

definition sortedUnits :: "chapterNode \<Rightarrow> unitNode list" where
  "sortedUnits chapter =
     js_sort (\<lambda>a b. js_sub (toNum (un_unitNo a)) (toNum (un_unitNo b))) (map snd (unitsMap chapter))"

text \<open>
  Lines 316 to 343, for one chapter: \<open>chapterAccuracies\<close> and \<open>chapterCompletions\<close> receive
  one value per user, unit after unit.
\<close>

definition finalizeChapter :: "jsnum \<Rightarrow> chapterNode \<Rightarrow> chapter_out" where
  "finalizeChapter courseAvg chapter =
     (let us = map (finalizeUnit courseAvg) (sortedUnits chapter);
          chapterAccuracies = concat (map (\<lambda>u. map accuracy (users u)) us);
          chapterCompletions = concat (map (\<lambda>u. map completion (users u)) us)
      in \<lparr>chapterId = cn_chapterId chapter, chapterNo = cn_chapterNo chapter,
          chapterName = cn_chapterName chapter, units = us,
          chapter_avgAccuracy = calculateAverage chapterAccuracies,
          chapter_completion = calculateAverage chapterCompletions\<rparr>)"

definition sortedChapters :: "chaptersMap \<Rightarrow> chapterNode list" where
  "sortedChapters cm =
     js_sort (\<lambda>a b. js_sub (toNum (cn_chapterNo a)) (toNum (cn_chapterNo b))) (map snd cm)"

definition allUsersOf :: "chapter_out list \<Rightarrow> user list" where
  "allUsersOf cs = concat (map (\<lambda>c. concat (map users (units c))) cs)"

definition allUnitsOf :: "chapter_out list \<Rightarrow> unit_out list" where
  "allUnitsOf cs = concat (map units cs)"

text \<open>Lines 344 to 348.\<close>

definition buildRoot :: "FlatRecord list \<Rightarrow> chapter_out list \<Rightarrow> hierarchy" where
  "buildRoot flatData cs =
     \<lparr>chapters = cs,
      root_noOfLearners = length (remdups (filter id_truthy (map UserId flatData))),
      root_avgAccuracy =
        truncateToDecimals2
          (calculateAverage (filter (\<lambda>a. js_gt a (Fin 0)) (map avgAccuracy (allUnitsOf cs)))),
      root_completion =
        truncateToDecimals2 (calculateAverage (map completion (allUsersOf cs))),
      root_totalTimeSpent =
        formatSecondsToDuration
          (foldl js_add (Fin 0)
             (map (\<lambda>u. parseDurationToSeconds (TStr (totalTimeSpent u))) (allUsersOf cs)))\<rparr>"

text \<open>Lines 288 to 349: the builder on an input that has passed the guard of line 287.\<close>

definition buildHierarchy :: "FlatRecord list \<Rightarrow> hierarchy" where
  "buildHierarchy rows =
     buildRoot rows
       (map (finalizeChapter (courseAverageTimePerUnit rows)) (sortedChapters (groupRows rows)))"

text \<open>
  The result of the builder: the sentinel object with its message, or a hierarchy. The
  argument is \<open>None\<close> when the caller passes \<open>undefined\<close> or \<open>null\<close>.
\<close>

datatype build_result = NoData string | Built hierarchy

definition getLearningSystemHierarchy :: "FlatRecord list option \<Rightarrow> build_result" where
  "getLearningSystemHierarchy flatData =
     (case flatData of
        None \<Rightarrow> NoData ''No data found for the specified criteria.''
      | Some rows \<Rightarrow>
          if length rows = 0 then NoData ''No data found for the specified criteria.''
          else Built (buildHierarchy rows))"

section \<open>The diagnostic classifiers\<close>






text \<open>
  \<open>renderConceptAnalysis\<close>, lines 223 to 238. The nested \<open>forEach\<close> visits the elements
  of the hierarchy in order, each with the user it belongs to.
\<close>

record conceptAcc =
  ca_name :: "string option"
  accuracies :: "jsnum list"
  attempts :: "rat option list"

record conceptStat =
  cs_name :: "string option"
  cs_accuracies :: "jsnum list"
  cs_attempts :: "rat option list"
  cs_avgAccuracy :: jsnum
  cs_avgAttempts :: jsnum
  difficulty :: jsnum

definition elementsOfActivity :: "activityPerf \<Rightarrow> element list" where
  "elementsOfActivity a =
     concat (map (\<lambda>c. concat (map elements (components c))) (performanceByCategory a))"

definition observations :: "hierarchy \<Rightarrow> (user \<times> element) list" where
  "observations data =
     concat (map (\<lambda>u. map (\<lambda>el. (u, el)) (concat (map elementsOfActivity (activities u))))
               (allUsersOf (chapters data)))"

text \<open>Lines 227 to 230: what one element of one user adds to the entry of its concept.\<close>

definition pushObservation :: "user \<Rightarrow> element \<Rightarrow> conceptAcc \<Rightarrow> conceptAcc" where
  "pushObservation u el c =
     (let c1 = (if js_gt (el_accuracy el) (Fin 0)
                then c\<lparr>accuracies := accuracies c @ [el_accuracy el]\<rparr> else c);
          userActivity =
            find (\<lambda>a. list_ex (\<lambda>e. elementId e = elementId el) (elementsOfActivity a))
              (activities u)
      in case userActivity of
           None \<Rightarrow> c1
         | Some a \<Rightarrow> c1\<lparr>attempts := attempts c1 @ [totalAttempts a]\<rparr>)"

definition observe :: "(string \<times> conceptAcc) list \<Rightarrow> user \<times> element \<Rightarrow> (string \<times> conceptAcc) list" where
  "observe conceptMap ue =
     (case ue of
        (u, el) \<Rightarrow>
          (let cm1 = (if map_of conceptMap (elementId el) = None
                      then AList.update (elementId el)
                             \<lparr>ca_name = elementName el, accuracies = [], attempts = []\<rparr> conceptMap
                      else conceptMap)
           in AList.map_entry (elementId el) (pushObservation u el) cm1))"

definition conceptStatOf :: "conceptAcc \<Rightarrow> conceptStat" where
  "conceptStatOf c =
     (let avgAcc = calculateAverage (accuracies c);
          avgAtt = calculateAverage (map toNum (attempts c))
      in \<lparr>cs_name = ca_name c, cs_accuracies = accuracies c, cs_attempts = attempts c,
          cs_avgAccuracy = avgAcc, cs_avgAttempts = avgAtt,
          difficulty =
            js_mul (js_sub (Fin 100) avgAcc)
              (if js_gt avgAtt (Fin 1) then avgAtt else Fin (11 / 10))\<rparr>)"

definition renderConceptAnalysis :: "hierarchy \<Rightarrow> conceptStat list" where
  "renderConceptAnalysis data =
     js_sort (\<lambda>a b. js_sub (difficulty b) (difficulty a))
       (map (\<lambda>kv. conceptStatOf (snd kv)) (foldl observe [] (observations data)))"

section \<open>Rows of the scenarios\<close>

text \<open>A row with every field absent; the rows of the scenarios are updates of it.\<close>

definition emptyRow :: FlatRecord where
  "emptyRow =
     \<lparr>ChapterId = IdAbsent, ChapterNo = None, ChapterName = None, UnitId = IdAbsent,
      UnitNo = None, UnitName = None, ActivityTypeId = IdAbsent, ActivityTypeName = None,
      SequenceBuilderID = IdAbsent, ConceptId = IdAbsent, ConceptName = None,
      ConceptCategory = None, ConceptParentId = IdAbsent, ConceptParentName = None,
      UserId = IdAbsent, UserFullName = None, UnitCompletionPercentage = None,
      UnitAccuracyPercentage = None, UnitTimeSpent = TAbsent,
      ActivityTypeAccuracyPercentage = None, ActivityTotalAttempts = None,
      ConceptAccuracyPercentage = None\<rparr>"

text \<open>
  Scenario B: two rows of one chapter, one unit and one user; the first has accuracy 30
  and time \<open>"02:00:00"\<close>, and the time of the second brings the mean time of the rows to
  1800 seconds, \<open>"00:30:00"\<close>.
\<close>

definition scenarioB_row1 :: FlatRecord where
  "scenarioB_row1 =
     emptyRow\<lparr>ChapterId := IdNum 1, ChapterNo := Some 1, UnitId := IdNum 1, UnitNo := Some 1,
       UserId := IdStr ''u1'', UnitAccuracyPercentage := Some 30,
       UnitTimeSpent := TStr ''02:00:00''\<rparr>"

definition scenarioB_row2 :: FlatRecord where
  "scenarioB_row2 = scenarioB_row1\<lparr>UnitTimeSpent := TStr ''-01:00:00''\<rparr>"



text \<open>
  Scenario E: one user, one activity with 5 attempts, one concept with accuracy 40.
\<close>

definition conceptRow :: "int \<Rightarrow> rat \<Rightarrow> rat \<Rightarrow> FlatRecord" where
  "conceptRow uid att acc =
     emptyRow\<lparr>ChapterId := IdNum 1, ChapterNo := Some 1, UnitId := IdNum 1, UnitNo := Some 1,
       UserId := IdNum uid, ActivityTypeId := IdNum 1, SequenceBuilderID := IdNum 1,
       ActivityTotalAttempts := Some att, ConceptId := IdNum 7,
       ConceptAccuracyPercentage := Some acc\<rparr>"

definition scenarioE :: "FlatRecord list" where
  "scenarioE = [conceptRow 1 5 40]"

text \<open>
  Eleven users of one activity and one concept with accuracy 50: ten with one attempt, one
  with two, so that the attempts average \<open>12 / 11\<close>, between 1 and 1.1.
\<close>

definition elevenLearners :: "FlatRecord list" where
  "elevenLearners = map (\<lambda>n. conceptRow n 1 50) [1, 2, 3, 4, 5, 6, 7, 8, 9, 10] @ [conceptRow 11 2 50]"





section \<open>Notions of the specification\<close>

text \<open>A number that compares greater than 0: a positive rational or \<open>Infinity\<close>.\<close>

definition js_pos :: "jsnum \<Rightarrow> bool" where
  "js_pos a = js_gt a (Fin 0)"

text \<open>
  The difficulty index in the words of the specification,
  \<open>(100 - avgAccuracy) * max(avgAttempts, 1.1)\<close>, to compare with the one the code computes.
\<close>

definition js_max :: "jsnum \<Rightarrow> jsnum \<Rightarrow> jsnum" where
  "js_max a b = (if a = NaN \<or> b = NaN then NaN else if js_lt a b then b else a)"

definition spec_difficultyIndex :: "jsnum \<Rightarrow> jsnum \<Rightarrow> jsnum" where
  "spec_difficultyIndex avgAcc avgAtt = js_mul (js_sub (Fin 100) avgAcc) (js_max avgAtt (Fin (11 / 10)))"




subsection \<open>First-seen order\<close>











section \<open>Properties of numbers and strings\<close>

lemma truncateToDecimals_default:
  "truncateToDecimals n 2 = Inr (truncateToDecimals2 n)"
  by (cases n) (simp_all add: truncateToDecimals_def truncateToDecimals2_def isNaN_def)
























section \<open>The scalar helpers\<close>

text \<open>
  C1, at the input of the phrase: \<open>truncateToDecimals(59.996, 1)\<close> is 60, the nearest
  number with one decimal digit, and not the truncation 59.9; \<open>truncateToDecimals(-1, 1)\<close>
  is \<open>-1\<close>.
\<close>

theorem truncateToDecimals_rounds:
  "truncateToDecimals (Fin (59996 / 1000)) 1 = Inr (Fin 60)
   \<and> truncateToDecimals (Fin (59996 / 1000)) 1 \<noteq> Inr (Fin (599 / 10))
   \<and> truncateToDecimals (Fin (- 1)) 1 = Inr (Fin (- 1))"
  by code_simp

text \<open>
  C4, at a duration with three components that are no numbers:
  \<open>parseDurationToSeconds("a:b:c")\<close> is \<open>NaN\<close>, not 0, since the array has length 3 and
  \<open>Number("a")\<close> is \<open>NaN\<close>. The other malformed values of the claim do parse to 0.
\<close>

theorem parseDurationToSeconds_nonnumeric:
  "parseDurationToSeconds (TStr ''a:b:c'') = NaN
   \<and> parseTimeObjectToSeconds (TStr ''a:b:c'') = NaN
   \<and> parseDurationToSeconds (TStr []) = Fin 0
   \<and> parseDurationToSeconds TAbsent = Fin 0
   \<and> parseDurationToSeconds (TStr ''12:30'') = Fin 0"
  by code_simp



section \<open>The builder\<close>

text \<open>
  C5: on an absent and on an empty input the builder returns the sentinel with its
  message, which is no hierarchy; on every non-empty input it returns a hierarchy, which
  carries no message.
\<close>

theorem getLearningSystemHierarchy_sentinel:
  "getLearningSystemHierarchy None = NoData ''No data found for the specified criteria.''
   \<and> getLearningSystemHierarchy (Some []) = NoData ''No data found for the specified criteria.''
   \<and> (\<forall>h. getLearningSystemHierarchy (Some []) \<noteq> Built h)
   \<and> (rows \<noteq> [] \<longrightarrow>
        (\<exists>h. getLearningSystemHierarchy (Some rows) = Built h)
        \<and> (\<forall>m. getLearningSystemHierarchy (Some rows) \<noteq> NoData m))"
  by (simp add: getLearningSystemHierarchy_def)

theorem getLearningSystemHierarchy_sentinel_witness:
  "[emptyRow] \<noteq> [] \<and> (\<exists>h. getLearningSystemHierarchy (Some [emptyRow]) = Built h)"
  using getLearningSystemHierarchy_sentinel [of "[emptyRow]"] by simp

section \<open>The grouping pass and the rollup\<close>

lemma set_update_subset: "set (AList.update k v al) \<subseteq> insert (k, v) (set al)"
  by (induction al) auto

lemma usersMap_addActivity [simp]: "usersMap (addActivity row u) = usersMap u"
  by (simp add: addActivity_def)

lemma usersMap_addConcept [simp]: "usersMap (addConcept row u) = usersMap u"
  by (simp add: addConcept_def split: option.splits)

lemma un_fields_addActivity [simp]:
  "un_unitId (addActivity row u) = un_unitId u"
  "un_unitNo (addActivity row u) = un_unitNo u"
  "un_unitName (addActivity row u) = un_unitName u"
  by (simp_all add: addActivity_def)

lemma un_fields_addConcept [simp]:
  "un_unitId (addConcept row u) = un_unitId u"
  "un_unitNo (addConcept row u) = un_unitNo u"
  "un_unitName (addConcept row u) = un_unitName u"
  by (simp_all add: addConcept_def split: option.splits)


lemma keys_processUnit:
  "map fst (usersMap (processUnit row u)) =
     (if id_truthy (UserId row) \<and> UserId row \<notin> set (map fst (usersMap u))
      then map fst (usersMap u) @ [UserId row] else map fst (usersMap u))"
proof (cases "id_truthy (UserId row)")
  case False
  then show ?thesis by (simp add: processUnit_def Let_def)
next
  case True
  have k: "map fst (usersMap (addUser row (addConcept row (addActivity row u)))) =
           (if UserId row \<notin> set (map fst (usersMap u))
            then map fst (usersMap u) @ [UserId row] else map fst (usersMap u))"
    by (auto simp: addUser_def update_keys map_of_eq_None_iff)
  have m: "UserId row \<in> set (map fst (usersMap (addUser row (addConcept row (addActivity row u)))))"
    unfolding k by simp
  show ?thesis
    using True k m
    by (auto simp: processUnit_def Let_def update_keys split: option.splits)
qed

lemma processRow_cases:
  assumes "(k, c') \<in> set (processRow row cm)"
  shows "(k, c') \<in> set cm
     \<or> (\<exists>c. (c = newChapter row \<or> (k, c) \<in> set cm) \<and> k = ChapterId row
           \<and> cn_chapterId c' = cn_chapterId c \<and> cn_chapterNo c' = cn_chapterNo c
           \<and> cn_chapterName c' = cn_chapterName c
           \<and> (\<forall>ku u'. (ku, u') \<in> set (unitsMap c') \<longrightarrow>
                 (ku, u') \<in> set (unitsMap c) \<or> (id_truthy (UnitId row) \<and> u' = newUnit row)
                 \<or> (\<exists>u. ((id_truthy (UnitId row) \<and> u = newUnit row) \<or> (ku, u) \<in> set (unitsMap c))
                        \<and> u' = processUnit row u)))"
proof -
  define chap where "chap = getChapter row cm"
  define chap1 where "chap1 = ensureUnit row chap"
  have ch: "chap = newChapter row \<or> (ChapterId row, chap) \<in> set cm"
    by (auto simp: chap_def getChapter_def split: option.splits dest: map_of_SomeD)
  have u1: "(ku, u) \<in> set (unitsMap chap) \<or> (id_truthy (UnitId row) \<and> u = newUnit row)"
    if "(ku, u) \<in> set (unitsMap chap1)" for ku u
    using that set_update_subset[of "UnitId row" "newUnit row" "unitsMap chap"]
    by (auto simp: chap1_def ensureUnit_def split: if_splits)
  have f1: "cn_chapterId chap1 = cn_chapterId chap" "cn_chapterNo chap1 = cn_chapterNo chap"
     "cn_chapterName chap1 = cn_chapterName chap"
    by (simp_all add: chap1_def ensureUnit_def)
  show ?thesis
  proof (cases "map_of (unitsMap chap1) (UnitId row)")
    case None
    then have "processRow row cm = AList.update (ChapterId row) chap1 cm"
      by (simp add: processRow_def chap_def chap1_def Let_def)
    with assms set_update_subset[of "ChapterId row" chap1 cm]
    have "(k, c') \<in> set cm \<or> (k = ChapterId row \<and> c' = chap1)" by auto
    then show ?thesis
    proof
      assume "k = ChapterId row \<and> c' = chap1"
      then show ?thesis using ch u1 f1 by (intro disjI2 exI[of _ chap]) auto
    qed simp
  next
    case (Some unit)
    define c2 where "c2 = chap1\<lparr>unitsMap := AList.update (UnitId row) (processUnit row unit) (unitsMap chap1)\<rparr>"
    from Some have "processRow row cm = AList.update (ChapterId row) c2 cm"
      by (simp add: processRow_def chap_def chap1_def Let_def c2_def)
    with assms set_update_subset[of "ChapterId row" c2 cm]
    have "(k, c') \<in> set cm \<or> (k = ChapterId row \<and> c' = c2)" by auto
    then show ?thesis
    proof
      assume kc: "k = ChapterId row \<and> c' = c2"
      have un: "(UnitId row, unit) \<in> set (unitsMap chap1)"
        using Some by (rule map_of_SomeD)
      have u2: "set (unitsMap c2) \<subseteq> insert (UnitId row, processUnit row unit) (set (unitsMap chap1))"
        using set_update_subset[of "UnitId row" "processUnit row unit" "unitsMap chap1"]
        by (simp add: c2_def)
      have f2: "cn_chapterId c2 = cn_chapterId chap" "cn_chapterNo c2 = cn_chapterNo chap"
        "cn_chapterName c2 = cn_chapterName chap"
        by (simp_all add: c2_def f1)
      show ?thesis
        using kc ch u1 u2 f2 un by (intro disjI2 exI[of _ chap]) blast
    qed simp
  qed
qed


lemma groupRows_snoc: "groupRows (rows @ [r]) = processRow r (groupRows rows)"
  by (simp add: groupRows_def)


lemma groupRows_units_inv:
  assumes new: "\<And>r. r \<in> set rows \<Longrightarrow> id_truthy (UnitId r) \<Longrightarrow> PU (newUnit r)"
    and step: "\<And>r u. r \<in> set rows \<Longrightarrow> PU u \<Longrightarrow> PU (processUnit r u)"
    and "(k, c) \<in> set (groupRows rows)" "(ku, u) \<in> set (unitsMap c)"
  shows "PU u"
  using assms
proof (induction rows arbitrary: k c ku u rule: rev_induct)
  case Nil
  then show ?case by (simp add: groupRows_def)
next
  case (snoc r rows)
  have IH: "\<And>k c ku u. (k, c) \<in> set (groupRows rows) \<Longrightarrow> (ku, u) \<in> set (unitsMap c) \<Longrightarrow> PU u"
    using snoc.IH snoc.prems(1,2) by auto
  have newr: "id_truthy (UnitId r) \<Longrightarrow> PU (newUnit r)" using snoc.prems(1) by simp
  have stepr: "\<And>u. PU u \<Longrightarrow> PU (processUnit r u)" using snoc.prems(2) by simp
  from snoc.prems(3) have "(k, c) \<in> set (processRow r (groupRows rows))"
    by (simp add: groupRows_snoc)
  from processRow_cases[OF this] consider
      (old) "(k, c) \<in> set (groupRows rows)"
    | (upd) c0 where "c0 = newChapter r \<or> (k, c0) \<in> set (groupRows rows)"
        "\<forall>ku u'. (ku, u') \<in> set (unitsMap c) \<longrightarrow>
                 (ku, u') \<in> set (unitsMap c0) \<or> (id_truthy (UnitId r) \<and> u' = newUnit r)
                 \<or> (\<exists>u. ((id_truthy (UnitId r) \<and> u = newUnit r) \<or> (ku, u) \<in> set (unitsMap c0))
                        \<and> u' = processUnit r u)"
    by blast
  then show ?case
  proof cases
    case old
    from IH[OF this snoc.prems(4)] show ?thesis .
  next
    case upd
    have old: "\<And>ku u. (ku, u) \<in> set (unitsMap c0) \<Longrightarrow> PU u"
      using upd(1) IH by (auto simp: newChapter_def)
    from upd(2) snoc.prems(4) show ?thesis
      using old newr stepr by blast
  qed
qed


lemma js_add_zero_left: "js_add (Fin 0) t = t"
  by (cases t) simp_all

lemma js_div_one: "js_div t (Fin 1) = t"
  by (cases t) simp_all

lemma js_lt_irrefl: "\<not> js_lt t t"
  by (cases t) simp_all

lemma units_finalizeChapter:
  "units (finalizeChapter cavg cn) = map (finalizeUnit cavg) (sortedUnits cn)"
  by (simp add: finalizeChapter_def Let_def)

lemma users_finalizeUnit:
  "users (finalizeUnit cavg un) = map (finalizeUser (avgUnitTimePerUser un)) (map snd (usersMap un))"
  by (simp add: finalizeUnit_def Let_def)

lemma chapters_buildHierarchy:
  "chapters (buildHierarchy rows) =
     map (finalizeChapter (courseAverageTimePerUnit rows)) (sortedChapters (groupRows rows))"
  by (simp add: buildHierarchy_def buildRoot_def)



lemma single_user_not_struggling:
  assumes "length (usersMap un) = 1"
  shows "map isStruggling (users (finalizeUnit cavg un)) = [False]"
proof -
  obtain kv where kv: "usersMap un = [kv]"
    using assms by (cases "usersMap un") auto
  have "avgUnitTimePerUser un = totalTimeSpentSeconds (snd kv)"
    by (simp add: avgUnitTimePerUser_def kv js_add_zero_left js_div_one)
  then show ?thesis
    by (simp add: users_finalizeUnit kv finalizeUser_def js_gt_def js_lt_irrefl)
qed


lemma set_js_insort: "set (js_insort cmp x ys) = insert x (set ys)"
  by (induction ys) auto

lemma set_js_sort: "set (js_sort cmp xs) = set xs"
  by (induction xs) (simp_all add: js_sort_def set_js_insort)

lemma in_allUsersOf_buildHierarchy:
  assumes "u \<in> set (allUsersOf (chapters (buildHierarchy rows)))"
  obtains k c ku un where "(k, c) \<in> set (groupRows rows)" "(ku, un) \<in> set (unitsMap c)"
    "u \<in> set (users (finalizeUnit (courseAverageTimePerUnit rows) un))"
  using assms
  by (auto simp: allUsersOf_def chapters_buildHierarchy units_finalizeChapter sortedChapters_def
      sortedUnits_def set_js_sort)

lemma in_allUnitsOf_buildHierarchy:
  assumes "u \<in> set (allUnitsOf (chapters (buildHierarchy rows)))"
  obtains k c ku un where "(k, c) \<in> set (groupRows rows)" "(ku, un) \<in> set (unitsMap c)"
    "u = finalizeUnit (courseAverageTimePerUnit rows) un"
  using assms
  by (auto simp: allUnitsOf_def chapters_buildHierarchy units_finalizeChapter sortedChapters_def
      sortedUnits_def set_js_sort)

lemma same_user_units:
  assumes "\<forall>r\<in>set rows. UserId r = x"
    and "(k, c) \<in> set (groupRows rows)" "(ku, un) \<in> set (unitsMap c)"
  shows "length (usersMap un) \<le> 1"
proof -
  let ?PU = "\<lambda>u. distinct (map fst (usersMap u)) \<and> set (map fst (usersMap u)) \<subseteq> {x}"
  have "?PU un"
  proof (rule groupRows_units_inv[where PU = ?PU, OF _ _ assms(2,3)])
    show "?PU (newUnit r)" for r by (simp add: newUnit_def)
    show "?PU (processUnit r u)" if "r \<in> set rows" "?PU u" for r u
      using that assms(1) by (auto simp: keys_processUnit)
  qed
  then have d: "distinct (map fst (usersMap un))"
    and s: "set (map fst (usersMap un)) \<subseteq> {x}" by auto
  have "length (map fst (usersMap un)) = card (set (map fst (usersMap un)))"
    using d by (rule distinct_card [symmetric])
  also have "\<dots> \<le> card {x}"
    using s by (intro card_mono) auto
  finally show ?thesis by simp
qed

text \<open>
  C3, amended: \<open>isStruggling\<close> of a user in a unit is accuracy below 50 and time spent
  strictly above the unit's mean time per user. When all rows carry the same user id, as
  the two rows of Scenario B do, every unit holds that single user, whose time is the mean
  of the unit, and \<open>isStruggling\<close> is false.
\<close>

theorem isStruggling_rule:
  "map isStruggling (users (finalizeUnit cavg un)) =
     map (\<lambda>kv. js_lt (usr_accuracy (snd kv)) (Fin 50)
                \<and> js_gt (totalTimeSpentSeconds (snd kv)) (avgUnitTimePerUser un)) (usersMap un)
   \<and> ((\<forall>r\<in>set rows. UserId r = x) \<longrightarrow>
        (\<forall>u\<in>set (allUsersOf (chapters (buildHierarchy rows))). \<not> isStruggling u))"
proof (intro conjI impI ballI)
  show "map isStruggling (users (finalizeUnit cavg un)) =
     map (\<lambda>kv. js_lt (usr_accuracy (snd kv)) (Fin 50)
                \<and> js_gt (totalTimeSpentSeconds (snd kv)) (avgUnitTimePerUser un)) (usersMap un)"
    by (simp add: users_finalizeUnit finalizeUser_def)
next
  fix u assume same: "\<forall>r\<in>set rows. UserId r = x"
    and u: "u \<in> set (allUsersOf (chapters (buildHierarchy rows)))"
  from u obtain k c ku n where n: "(k, c) \<in> set (groupRows rows)" "(ku, n) \<in> set (unitsMap c)"
    "u \<in> set (users (finalizeUnit (courseAverageTimePerUnit rows) n))"
    by (rule in_allUsersOf_buildHierarchy)
  have "length (usersMap n) \<le> 1" using same n(1,2) by (rule same_user_units)
  moreover have "usersMap n \<noteq> []" using n(3) by (auto simp: users_finalizeUnit)
  ultimately have "length (usersMap n) = 1" by (cases "usersMap n") auto
  then have "map isStruggling (users (finalizeUnit (courseAverageTimePerUnit rows) n)) = [False]"
    by (rule single_user_not_struggling)
  with n(3) show "\<not> isStruggling u"
    by (metis (no_types, lifting) image_eqI list.set_map list.simps(15) empty_set singletonD insertE empty_iff)
qed

text \<open>
  C3 as stated fails on the rows of Scenario B: the course-wide mean time is 1800 seconds
  (\<open>"00:30:00"\<close>), the user has accuracy 30 and time \<open>"02:00:00"\<close>, and
  \<open>isStruggling\<close> is false.
\<close>

theorem scenarioB_isStruggling_false:
  "courseAverageTimePerUnit [scenarioB_row1, scenarioB_row2] = Fin 1800
   \<and> formatSecondsToDuration (Fin 1800) = ''00:30:00''
   \<and> getLearningSystemHierarchy (Some [scenarioB_row1, scenarioB_row2])
       = Built (buildHierarchy [scenarioB_row1, scenarioB_row2])
   \<and> map userId (allUsersOf (chapters (buildHierarchy [scenarioB_row1, scenarioB_row2]))) = [''u1'']
   \<and> map accuracy (allUsersOf (chapters (buildHierarchy [scenarioB_row1, scenarioB_row2]))) = [Fin 30]
   \<and> map totalTimeSpent (allUsersOf (chapters (buildHierarchy [scenarioB_row1, scenarioB_row2])))
       = [''02:00:00'']
   \<and> map isStruggling (allUsersOf (chapters (buildHierarchy [scenarioB_row1, scenarioB_row2])))
       = [False]"
  by code_simp

theorem isStruggling_rule_witness:
  "list_all (\<lambda>r. UserId r = IdStr ''u1'') [scenarioB_row1, scenarioB_row2]
   \<and> length (allUsersOf (chapters (buildHierarchy [scenarioB_row1, scenarioB_row2]))) = 1
   \<and> list_all (\<lambda>u. \<not> isStruggling u)
         (allUsersOf (chapters (buildHierarchy [scenarioB_row1, scenarioB_row2])))"
proof -
  have h: "\<forall>r\<in>set [scenarioB_row1, scenarioB_row2]. UserId r = IdStr ''u1''"
    by (simp add: scenarioB_row1_def scenarioB_row2_def emptyRow_def)
  have n: "length (allUsersOf (chapters (buildHierarchy [scenarioB_row1, scenarioB_row2]))) = 1"
    by code_simp
  from isStruggling_rule [of "Fin 0" "newUnit emptyRow" "[scenarioB_row1, scenarioB_row2]" "IdStr ''u1''"] h
  have "\<forall>u\<in>set (allUsersOf (chapters (buildHierarchy [scenarioB_row1, scenarioB_row2]))).
          \<not> isStruggling u"
    by blast
  with h n show ?thesis by (simp add: list_all_iff)
qed

section \<open>The course-level averages\<close>

text \<open>\<open>calculateAverage\<close> is the arithmetic mean on finite numbers.\<close>

lemma foldl_js_add_Fin: "foldl js_add (Fin a) (map Fin xs) = Fin (a + sum_list xs)"
  by (induction xs arbitrary: a) (simp_all add: add.assoc)

lemma calculateAverage_Fin:
  "calculateAverage (map Fin xs) = Fin (if xs = [] then 0 else sum_list xs / of_nat (length xs))"
  by (simp add: calculateAverage_def foldl_js_add_Fin)

lemma js_pos_cases: "js_pos a \<longleftrightarrow> a = PInf \<or> (\<exists>q>0. a = Fin q)"
  by (cases a) (auto simp: js_pos_def js_gt_def)

lemma js_add_pos: "js_pos b \<Longrightarrow> a = Fin 0 \<or> js_pos a \<Longrightarrow> js_pos (js_add a b)"
  by (auto simp: js_pos_cases)

lemma foldl_js_add_pos:
  "\<forall>x\<in>set xs. js_pos x \<Longrightarrow> a = Fin 0 \<or> js_pos a \<Longrightarrow> foldl js_add a xs = a \<or> js_pos (foldl js_add a xs)"
proof (induction xs arbitrary: a)
  case Nil
  then show ?case by simp
next
  case (Cons x xs)
  then have "js_pos (js_add a x)" by (simp add: js_add_pos)
  with Cons.IH[of "js_add a x"] Cons.prems(1) show ?case by auto
qed

lemma calculateAverage_pos:
  assumes "\<forall>x\<in>set xs. js_pos x"
  shows "calculateAverage xs = Fin 0 \<or> js_pos (calculateAverage xs)"
proof (cases xs)
  case Nil
  then show ?thesis by (simp add: calculateAverage_def)
next
  case (Cons x ys)
  have "js_pos (js_add (Fin 0) x)" using assms Cons by (simp add: js_add_pos)
  with foldl_js_add_pos[of ys "js_add (Fin 0) x"] assms Cons
  have "js_pos (foldl js_add (Fin 0) xs)" by auto
  then have "js_pos (js_div (foldl js_add (Fin 0) xs) (Fin (of_nat (length xs))))"
    using Cons by (auto simp: js_pos_cases)
  then show ?thesis using Cons by (simp add: calculateAverage_def)
qed











section \<open>The concept ranking\<close>

lemma sorted_js_insort:
  assumes gt: "\<And>y. y \<in> set ys \<Longrightarrow> js_gt (cmp x y) (Fin 0) \<Longrightarrow> R y x"
    and ngt: "\<And>y. y \<in> set ys \<Longrightarrow> \<not> js_gt (cmp x y) (Fin 0) \<Longrightarrow> R x y"
    and trans: "\<And>y z. y \<in> set ys \<Longrightarrow> z \<in> set ys \<Longrightarrow> R x y \<Longrightarrow> R y z \<Longrightarrow> R x z"
    and "sorted_wrt R ys"
  shows "sorted_wrt R (js_insort cmp x ys)"
  using assms
proof (induction ys)
  case Nil
  then show ?case by simp
next
  case (Cons y ys)
  show ?case
  proof (cases "js_gt (cmp x y) (Fin 0)")
    case True
    have "sorted_wrt R (js_insort cmp x ys)"
      using Cons.prems by (intro Cons.IH) auto
    moreover have "R y x" using Cons.prems(1) True by simp
    ultimately show ?thesis
      using True Cons.prems(4) by (auto simp: set_js_insort)
  next
    case False
    then have "R x y" using Cons.prems(2) by simp
    then have "\<forall>z\<in>set ys. R x z"
      using Cons.prems(3,4) by auto
    with False \<open>R x y\<close> Cons.prems(4) show ?thesis by simp
  qed
qed

lemma js_gt_sub: "a \<noteq> NaN \<Longrightarrow> b \<noteq> NaN \<Longrightarrow> js_gt (js_sub a b) (Fin 0) \<longleftrightarrow> js_lt b a"
  by (cases a; cases b) (auto simp: js_gt_def js_sub_def)

lemma js_le_trans: "js_le a b \<Longrightarrow> js_le b c \<Longrightarrow> js_le a c"
  by (cases a; cases b; cases c) (auto simp: js_le_def)

lemma js_lt_le: "js_lt a b \<Longrightarrow> js_le a b"
  by (cases a; cases b) (auto simp: js_le_def)

lemma js_not_lt_le: "a \<noteq> NaN \<Longrightarrow> b \<noteq> NaN \<Longrightarrow> \<not> js_lt b a \<Longrightarrow> js_le a b"
  by (simp add: js_le_def)


lemma js_sort_descending:
  assumes "\<forall>x\<in>set xs. key x \<noteq> NaN"
  shows "sorted_wrt (\<lambda>a b. js_le (key b) (key a)) (js_sort (\<lambda>a b. js_sub (key b) (key a)) xs)"
  using assms
proof (induction xs)
  case Nil
  then show ?case by (simp add: js_sort_def)
next
  case (Cons x xs)
  let ?s = "js_sort (\<lambda>a b. js_sub (key b) (key a)) xs"
  have s: "sorted_wrt (\<lambda>a b. js_le (key b) (key a)) ?s" using Cons by simp
  have k: "key x \<noteq> NaN" "\<forall>y\<in>set ?s. key y \<noteq> NaN"
    using Cons.prems by (simp_all add: set_js_sort)
  have "sorted_wrt (\<lambda>a b. js_le (key b) (key a)) (js_insort (\<lambda>a b. js_sub (key b) (key a)) x ?s)"
  proof (rule sorted_js_insort[OF _ _ _ s])
    fix y assume "y \<in> set ?s" "js_gt (js_sub (key y) (key x)) (Fin 0)"
    then show "js_le (key x) (key y)" using k by (simp add: js_gt_sub js_lt_le)
  next
    fix y assume "y \<in> set ?s" "\<not> js_gt (js_sub (key y) (key x)) (Fin 0)"
    then show "js_le (key y) (key x)" using k by (simp add: js_gt_sub js_not_lt_le)
  next
    fix y z assume "js_le (key y) (key x)" "js_le (key z) (key y)"
    then show "js_le (key z) (key x)" by (rule js_le_trans[rotated])
  qed
  then show ?case by (simp add: js_sort_def)
qed


lemma length_js_insort: "length (js_insort cmp x ys) = Suc (length ys)"
  by (induction ys) auto

lemma length_js_sort: "length (js_sort cmp xs) = length xs"
  by (induction xs) (simp_all add: js_sort_def length_js_insort)

lemma keys_map_entry: "map fst (AList.map_entry k f al) = map fst al"
  by (induction al) auto

lemma set_map_entry:
  "(k', v') \<in> set (AList.map_entry k f al) \<Longrightarrow>
     (k', v') \<in> set al \<or> (\<exists>v. (k', v) \<in> set al \<and> v' = f v)"
  by (induction al) (auto split: if_splits)

lemma keys_observe:
  "map fst (observe cm (u, el)) =
     (if elementId el \<in> set (map fst cm) then map fst cm else map fst cm @ [elementId el])"
  by (auto simp: observe_def Let_def keys_map_entry update_keys map_of_eq_None_iff)

lemma keys_foldl_observe:
  "distinct (map fst cm) \<Longrightarrow>
     distinct (map fst (foldl observe cm obs))
     \<and> set (map fst (foldl observe cm obs)) = set (map fst cm) \<union> (\<lambda>ue. elementId (snd ue)) ` set obs"
proof (induction obs arbitrary: cm)
  case Nil
  then show ?case by simp
next
  case (Cons ue obs)
  obtain u el where ue: "ue = (u, el)" by (cases ue)
  have d: "distinct (map fst (observe cm ue))"
    using Cons.prems by (simp add: ue keys_observe)
  have s: "set (map fst (observe cm ue)) = insert (elementId el) (set (map fst cm))"
    by (auto simp: ue keys_observe)
  from Cons.IH[OF d] s show ?case by (auto simp: ue)
qed

lemma accuracies_observe:
  assumes "\<forall>(k, c)\<in>set cm. \<forall>a\<in>set (accuracies c). js_pos a"
  shows "\<forall>(k, c)\<in>set (observe cm ue). \<forall>a\<in>set (accuracies c). js_pos a"
proof -
  obtain u el where ue: "ue = (u, el)" by (cases ue)
  define cm1 where "cm1 = (if map_of cm (elementId el) = None
                      then AList.update (elementId el)
                             \<lparr>ca_name = elementName el, accuracies = [], attempts = []\<rparr> cm
                      else cm)"
  have 1: "js_pos a" if "(k, c) \<in> set cm1" "a \<in> set (accuracies c)" for k c a
  proof -
    from that(1) have "(k, c) \<in> set cm \<or> accuracies c = []"
      using set_update_subset[of "elementId el"
          "\<lparr>ca_name = elementName el, accuracies = [], attempts = []\<rparr>" cm]
      by (auto simp: cm1_def split: if_splits)
    with that(2) assms show "js_pos a" by auto
  qed
  have 2: "a \<in> set (accuracies c) \<or> js_pos a" if "a \<in> set (accuracies (pushObservation u el c))" for a c
    using that by (auto simp: pushObservation_def Let_def js_pos_def split: option.splits if_splits)
  show ?thesis
    unfolding ue observe_def Let_def prod.case cm1_def[symmetric]
  proof clarify
    fix k c a
    assume kc: "(k, c) \<in> set (AList.map_entry (elementId el) (pushObservation u el) cm1)"
      and a: "a \<in> set (accuracies c)"
    from set_map_entry[OF kc] a show "js_pos a"
      using 1 2 by blast
  qed
qed

lemma accuracies_foldl_observe:
  "\<forall>(k, c)\<in>set cm. \<forall>a\<in>set (accuracies c). js_pos a \<Longrightarrow>
   \<forall>(k, c)\<in>set (foldl observe cm obs). \<forall>a\<in>set (accuracies c). js_pos a"
proof (induction obs arbitrary: cm)
  case Nil
  then show ?case by simp
next
  case (Cons ue obs)
  from Cons.IH[OF accuracies_observe[OF Cons.prems]] show ?case by simp
qed

lemma foldl_js_add_toNum:
  "a \<noteq> PInf \<Longrightarrow> a \<noteq> NInf \<Longrightarrow>
     foldl js_add a (map toNum xs) \<noteq> PInf \<and> foldl js_add a (map toNum xs) \<noteq> NInf"
proof (induction xs arbitrary: a)
  case Nil
  then show ?case by simp
next
  case (Cons x xs)
  have "js_add a (toNum x) \<noteq> PInf \<and> js_add a (toNum x) \<noteq> NInf"
    using Cons.prems by (cases a; cases x) (auto simp: toNum_def)
  with Cons.IH[of "js_add a (toNum x)"] show ?case by simp
qed

lemma calculateAverage_toNum:
  "calculateAverage (map toNum xs) \<noteq> PInf \<and> calculateAverage (map toNum xs) \<noteq> NInf"
proof (cases xs)
  case Nil
  then show ?thesis by (simp add: calculateAverage_def)
next
  case (Cons x ys)
  let ?s = "foldl js_add (Fin 0) (map toNum xs)"
  have "?s \<noteq> PInf \<and> ?s \<noteq> NInf" by (rule foldl_js_add_toNum) simp_all
  then have "js_div ?s (Fin (of_nat (length xs))) \<noteq> PInf \<and> js_div ?s (Fin (of_nat (length xs))) \<noteq> NInf"
    using Cons by (cases ?s) auto
  then show ?thesis using Cons by (simp add: calculateAverage_def)
qed

lemma difficulty_conceptStatOf:
  "difficulty (conceptStatOf c) =
     js_mul (js_sub (Fin 100) (cs_avgAccuracy (conceptStatOf c)))
       (if js_gt (cs_avgAttempts (conceptStatOf c)) (Fin 1) then cs_avgAttempts (conceptStatOf c)
        else Fin (11 / 10))"
  "cs_avgAccuracy (conceptStatOf c) = calculateAverage (cs_accuracies (conceptStatOf c))"
  "cs_avgAttempts (conceptStatOf c) = calculateAverage (map toNum (cs_attempts (conceptStatOf c)))"
  "cs_accuracies (conceptStatOf c) = accuracies c"
  by (simp_all add: conceptStatOf_def Let_def)

lemma difficulty_not_NaN:
  assumes "\<forall>a\<in>set (accuracies c). js_pos a"
  shows "difficulty (conceptStatOf c) \<noteq> NaN"
proof -
  let ?acc = "calculateAverage (accuracies c)"
  let ?att = "calculateAverage (map toNum (attempts c))"
  have "?acc = Fin 0 \<or> js_pos ?acc" using assms by (rule calculateAverage_pos)
  then have a: "js_sub (Fin 100) ?acc = NInf \<or> (\<exists>x. js_sub (Fin 100) ?acc = Fin x)"
    by (auto simp: js_pos_cases js_sub_def)
  have "?att \<noteq> PInf \<and> ?att \<noteq> NInf" by (rule calculateAverage_toNum)
  then have m: "\<exists>q>0. (if js_gt ?att (Fin 1) then ?att else Fin (11 / 10)) = Fin q"
  proof (cases "js_gt ?att (Fin 1)")
    case True
    with \<open>?att \<noteq> PInf \<and> ?att \<noteq> NInf\<close> obtain x where "?att = Fin x" "x > 1"
      by (cases ?att) (auto simp: js_gt_def)
    with True show ?thesis by auto
  next
    case False
    then show ?thesis by (auto intro: exI[of _ "11 / 10"])
  qed
  then obtain q where q: "q > 0" "(if js_gt ?att (Fin 1) then ?att else Fin (11 / 10)) = Fin q"
    by blast
  have "js_mul (js_sub (Fin 100) ?acc) (Fin q) \<noteq> NaN"
    using a q(1) by auto
  then show ?thesis
    using q(2) by (simp add: conceptStatOf_def Let_def)
qed

text \<open>
  C2, amended: the concept list has one entry per distinct concept id of the cohort; the
  difficulty index of each is \<open>(100 - avgAccuracy) * m\<close>, where \<open>m\<close> is the average of the
  attempts when that is greater than 1 and 1.1 otherwise; the list is sorted descending by
  the index; and a concept with average accuracy 40 and average attempts 5 has index 300.
\<close>

theorem concept_difficulty:
  "(\<forall>c\<in>set (renderConceptAnalysis data).
       cs_avgAccuracy c = calculateAverage (cs_accuracies c)
     \<and> cs_avgAttempts c = calculateAverage (map toNum (cs_attempts c))
     \<and> difficulty c =
         js_mul (js_sub (Fin 100) (cs_avgAccuracy c))
           (if js_gt (cs_avgAttempts c) (Fin 1) then cs_avgAttempts c else Fin (11 / 10))
     \<and> (cs_avgAccuracy c = Fin 40 \<and> cs_avgAttempts c = Fin 5 \<longrightarrow> difficulty c = Fin 300))
   \<and> sorted_wrt (\<lambda>a b. js_le (difficulty b) (difficulty a)) (renderConceptAnalysis data)
   \<and> length (renderConceptAnalysis data) = card ((\<lambda>ue. elementId (snd ue)) ` set (observations data))"
proof -
  let ?cm = "foldl observe [] (observations data)"
  let ?stats = "map (\<lambda>kv. conceptStatOf (snd kv)) ?cm"
  have r: "renderConceptAnalysis data = js_sort (\<lambda>a b. js_sub (difficulty b) (difficulty a)) ?stats"
    by (simp add: renderConceptAnalysis_def)
  have acc: "\<forall>(k, c)\<in>set ?cm. \<forall>a\<in>set (accuracies c). js_pos a"
    by (rule accuracies_foldl_observe) simp
  have nn: "\<forall>x\<in>set ?stats. difficulty x \<noteq> NaN"
  proof
    fix x assume "x \<in> set ?stats"
    then obtain k c where "(k, c) \<in> set ?cm" "x = conceptStatOf c" by auto
    with acc show "difficulty x \<noteq> NaN"
      by (auto intro!: difficulty_not_NaN)
  qed
  have sorted: "sorted_wrt (\<lambda>a b. js_le (difficulty b) (difficulty a)) (renderConceptAnalysis data)"
    unfolding r using nn by (rule js_sort_descending)
  have k: "distinct (map fst ?cm)"
    "set (map fst ?cm) = (\<lambda>ue. elementId (snd ue)) ` set (observations data)"
    using keys_foldl_observe[of "[]" "observations data"] by simp_all
  have "length (renderConceptAnalysis data) = length (map fst ?cm)"
    by (simp add: r length_js_sort)
  also have "\<dots> = card (set (map fst ?cm))"
    using k(1) by (rule distinct_card [symmetric])
  finally have len: "length (renderConceptAnalysis data)
      = card ((\<lambda>ue. elementId (snd ue)) ` set (observations data))"
    unfolding k(2) .
  have each: "cs_avgAccuracy c = calculateAverage (cs_accuracies c)
     \<and> cs_avgAttempts c = calculateAverage (map toNum (cs_attempts c))
     \<and> difficulty c =
         js_mul (js_sub (Fin 100) (cs_avgAccuracy c))
           (if js_gt (cs_avgAttempts c) (Fin 1) then cs_avgAttempts c else Fin (11 / 10))
     \<and> (cs_avgAccuracy c = Fin 40 \<and> cs_avgAttempts c = Fin 5 \<longrightarrow> difficulty c = Fin 300)"
    if "c \<in> set (renderConceptAnalysis data)" for c
  proof -
    from that obtain ca where c: "c = conceptStatOf ca"
      by (auto simp: r set_js_sort)
    have d: "difficulty c =
         js_mul (js_sub (Fin 100) (cs_avgAccuracy c))
           (if js_gt (cs_avgAttempts c) (Fin 1) then cs_avgAttempts c else Fin (11 / 10))"
      unfolding c by (rule difficulty_conceptStatOf)
    have e: "difficulty c = Fin 300" if "cs_avgAccuracy c = Fin 40" "cs_avgAttempts c = Fin 5"
      unfolding d that by (simp add: js_sub_def js_gt_def)
    show ?thesis
      using d e by (simp add: c difficulty_conceptStatOf(2,3))
  qed
  show ?thesis
    using each sorted len by blast
qed

theorem concept_difficulty_witness:
  "map cs_avgAccuracy (renderConceptAnalysis (buildHierarchy scenarioE)) = [Fin 40]
   \<and> map cs_avgAttempts (renderConceptAnalysis (buildHierarchy scenarioE)) = [Fin 5]
   \<and> map difficulty (renderConceptAnalysis (buildHierarchy scenarioE)) = [Fin 300]"
proof -
  have v: "map cs_avgAccuracy (renderConceptAnalysis (buildHierarchy scenarioE)) = [Fin 40]"
      "map cs_avgAttempts (renderConceptAnalysis (buildHierarchy scenarioE)) = [Fin 5]"
    by code_simp+
  then obtain c where c: "renderConceptAnalysis (buildHierarchy scenarioE) = [c]"
    by auto
  from concept_difficulty [of "buildHierarchy scenarioE"]
  have "\<forall>c\<in>set (renderConceptAnalysis (buildHierarchy scenarioE)).
          cs_avgAccuracy c = Fin 40 \<and> cs_avgAttempts c = Fin 5 \<longrightarrow> difficulty c = Fin 300"
    by blast
  then have "cs_avgAccuracy c = Fin 40 \<and> cs_avgAttempts c = Fin 5 \<longrightarrow> difficulty c = Fin 300"
    unfolding c by simp
  moreover from v have "cs_avgAccuracy c = Fin 40" "cs_avgAttempts c = Fin 5"
    unfolding c by simp_all
  ultimately have "difficulty c = Fin 300" by blast
  with v c show ?thesis by simp
qed


text \<open>
  C2 as stated fails when the attempts average between 1 and 1.1: for eleven learners of
  one concept with accuracy 50, ten with one attempt and one with two, the index is
  \<open>(100 - 50) * 12 / 11 = 600 / 11\<close>, while \<open>(100 - 50) * max(12 / 11, 1.1)\<close> is 55.
\<close>

theorem elevenLearners_difficulty:
  "map cs_avgAccuracy (renderConceptAnalysis (buildHierarchy elevenLearners)) = [Fin 50]
   \<and> map cs_avgAttempts (renderConceptAnalysis (buildHierarchy elevenLearners)) = [Fin (12 / 11)]
   \<and> map difficulty (renderConceptAnalysis (buildHierarchy elevenLearners)) = [Fin (600 / 11)]
   \<and> spec_difficultyIndex (Fin 50) (Fin (12 / 11)) = Fin 55
   \<and> map difficulty (renderConceptAnalysis (buildHierarchy elevenLearners))
       \<noteq> [spec_difficultyIndex (Fin 50) (Fin (12 / 11))]"
  by code_simp

section \<open>The learning pattern\<close>









section \<open>Order of the sequences\<close>


































end
